theory Spec2Isabelle
  imports Complex_Main
begin

section \<open>Values\<close>

text \<open>
  The module \<open>BitcoinIndicators\<close> computes with JavaScript numbers. A finite number is
  modelled by its exact real value (\<open>Number x\<close>): rounding of IEEE doubles is not part of
  this model, every arithmetic step below is exact. The values \<open>null\<close>, \<open>undefined\<close> and
  \<open>NaN\<close> are kept, because the code returns \<open>null\<close> for a series that is too short and
  then compares such values with numbers. Closing prices are finite numbers
  (\<open>real list\<close>), periods are natural numbers.

  The properties proved below are those that do not depend on rounding: which branch is
  taken, when a result is \<open>null\<close>, when a call throws, what the comparisons of the scorer
  decide, and values the code computes without rounding.
\<close>

datatype jsnum = Null | Undefined | NaN | Number real

text \<open>\<open>ToNumber\<close>: \<open>null\<close> is \<open>+0\<close>, \<open>undefined\<close> is \<open>NaN\<close> (\<open>None\<close> here).\<close>

fun to_number :: "jsnum \<Rightarrow> real option" where
  "to_number Null = Some 0"
| "to_number Undefined = None"
| "to_number NaN = None"
| "to_number (Number x) = Some x"

text \<open>
  The relational operators (greater, less, greater or equal, less or equal) convert both
  sides with \<open>ToNumber\<close> and are false as soon as one side is \<open>NaN\<close>.
\<close>

definition js_gt :: "jsnum \<Rightarrow> jsnum \<Rightarrow> bool" where
  "js_gt a b = (case (to_number a, to_number b) of (Some x, Some y) \<Rightarrow> x > y | _ \<Rightarrow> False)"

definition js_lt :: "jsnum \<Rightarrow> jsnum \<Rightarrow> bool" where
  "js_lt a b = (case (to_number a, to_number b) of (Some x, Some y) \<Rightarrow> x < y | _ \<Rightarrow> False)"

definition js_ge :: "jsnum \<Rightarrow> jsnum \<Rightarrow> bool" where
  "js_ge a b = (case (to_number a, to_number b) of (Some x, Some y) \<Rightarrow> x \<ge> y | _ \<Rightarrow> False)"

definition js_le :: "jsnum \<Rightarrow> jsnum \<Rightarrow> bool" where
  "js_le a b = (case (to_number a, to_number b) of (Some x, Some y) \<Rightarrow> x \<le> y | _ \<Rightarrow> False)"

text \<open>
  What a call does: it returns a value, or it throws. \<open>NonFinite\<close> marks the one place
  where the code returns an object whose fields are \<open>Infinity\<close> or \<open>NaN\<close> after a
  division by a zero period (\<open>calculateBollingerBands\<close> with period 0); those values have
  no counterpart among the reals.
\<close>

datatype error = TypeError

datatype 'a outcome = Returns (returned: 'a) | Throws error | NonFinite

text \<open>Sequencing: the first call that does not return a value ends the computation.\<close>

fun obind :: "'a outcome \<Rightarrow> ('a \<Rightarrow> 'b outcome) \<Rightarrow> 'b outcome" where
  "obind (Returns x) f = f x"
| "obind (Throws e) f = Throws e"
| "obind NonFinite f = NonFinite"

text \<open>
  \<open>xs.reduce((a, b) => a + b)\<close> without an initial value: a left fold that starts from
  the first element and throws a \<open>TypeError\<close> on an empty array.
\<close>

definition reduce_add :: "real list \<Rightarrow> real outcome" where
  "reduce_add xs = (case xs of [] \<Rightarrow> Throws TypeError | x # rest \<Rightarrow> Returns (foldl (\<lambda>a b. a + b) x rest))"

section \<open>The composite scorer\<close>

text \<open>
  The labels of the source are French text, some with accents and emoji. Each signal and
  each phase is a constructor named after its literal:
  \<open>RSI_sain\<close> is \<open>'RSI sain'\<close> (the specification's "RSI healthy"),
  \<open>RSI_surachat\<close> is \<open>'RSI surachat'\<close> ("RSI overbought"),
  \<open>RSI_faible\<close> is \<open>'RSI faible'\<close> ("RSI weak"),
  \<open>MACD_positif\<close> is \<open>'MACD positif'\<close> ("MACD positive"),
  \<open>MACD_negatif\<close> is \<open>'MACD negatif'\<close> with an acute accent ("MACD negative"),
  \<open>Golden_Cross\<close> and \<open>Death_Cross\<close> are \<open>'Golden Cross'\<close> and \<open>'Death Cross'\<close>,
  \<open>Prix_gt_EMA50\<close> is \<open>'Prix > EMA50'\<close> ("Price > EMA50") and
  \<open>Prix_gt_EMA200\<close> is \<open>'Prix > EMA200'\<close> ("Price > EMA200").
  The phases are \<open>'Bull Market Fort'\<close> ("Strong Bull"), \<open>'Bull Market Modere'\<close>
  ("Moderate Bull"), \<open>'Neutre / Consolidation'\<close> ("Neutral/Consolidation"),
  \<open>'Bear Market Modere'\<close> ("Moderate Bear") and \<open>'Bear Market Fort'\<close> ("Strong Bear"),
  each followed by an emoji in the source. The colour classes \<open>'up'\<close>, \<open>'neutral'\<close>
  and \<open>'down'\<close> are plain strings.
\<close>

datatype signal_tag =
    RSI_sain | RSI_surachat | RSI_faible
  | MACD_positif | MACD_negatif
  | Golden_Cross | Death_Cross
  | Prix_gt_EMA50 | Prix_gt_EMA200

datatype phase_label =
    Bull_Market_Fort | Bull_Market_Modere | Neutre_Consolidation
  | Bear_Market_Modere | Bear_Market_Fort

text \<open>The object returned by \<open>calculateMACD\<close>.\<close>

record macd_result =
  macd :: jsnum
  signal :: jsnum
  histogram :: jsnum

text \<open>The block "Determine phase": the thresholds are tried from the highest down.\<close>

definition determine_phase :: "nat \<Rightarrow> phase_label \<times> string" where
  "determine_phase score =
     (if score \<ge> 80 then (Bull_Market_Fort, ''up'')
      else if score \<ge> 60 then (Bull_Market_Modere, ''up'')
      else if score \<ge> 40 then (Neutre_Consolidation, ''neutral'')
      else if score \<ge> 20 then (Bear_Market_Modere, ''down'')
      else (Bear_Market_Fort, ''down''))"

text \<open>The object returned by \<open>calculateBullMarketIndicator\<close>.\<close>

record bull_market =
  score :: nat
  phase :: phase_label
  phaseColor :: string
  signals :: "signal_tag list"

text \<open>
  \<open>calculateBullMarketIndicator(rsi, macd, ema50, ema200, currentPrice)\<close>. The pair
  \<open>(score, signals)\<close> is the state the five blocks update in turn. The parameter
  \<open>macd\<close> is called \<open>macdObj\<close> here (\<open>macd\<close> is also a field); it is \<open>None\<close> for
  \<open>null\<close>, and reading \<open>macd.histogram\<close> then throws a \<open>TypeError\<close>.
\<close>

definition calculateBullMarketIndicator ::
  "jsnum \<Rightarrow> macd_result option \<Rightarrow> jsnum \<Rightarrow> jsnum \<Rightarrow> jsnum \<Rightarrow> bull_market outcome" where
  "calculateBullMarketIndicator rsi macdObj ema50 ema200 currentPrice =
     (let (score, signals) = (0::nat, []::signal_tag list);
          (score, signals) =
            (if js_ge rsi (Number 40) \<and> js_le rsi (Number 70) then (score + 20, signals @ [RSI_sain])
             else if js_gt rsi (Number 70) then (score, signals @ [RSI_surachat])
             else (score, signals @ [RSI_faible]))
      in case macdObj of
           None \<Rightarrow> Throws TypeError
         | Some m \<Rightarrow>
            (let (score, signals) =
                   (if js_gt (histogram m) (Number 0) then (score + 25, signals @ [MACD_positif])
                    else (score, signals @ [MACD_negatif]));
                 (score, signals) =
                   (if js_gt ema50 ema200 then (score + 30, signals @ [Golden_Cross])
                    else (score, signals @ [Death_Cross]));
                 (score, signals) =
                   (if js_gt currentPrice ema50 then (score + 15, signals @ [Prix_gt_EMA50])
                    else (score, signals));
                 (score, signals) =
                   (if js_gt currentPrice ema200 then (score + 10, signals @ [Prix_gt_EMA200])
                    else (score, signals));
                 (phase, phaseColor) = determine_phase score
             in Returns \<lparr>score = score, phase = phase, phaseColor = phaseColor, signals = signals\<rparr>))"

section \<open>The indicator calculations\<close>

subsection \<open>RSI\<close>

text \<open>
  The first loop of \<open>calculateRSI\<close>, over the indices \<open>idx\<close>: the sums of the gains and of
  the losses. A change of exactly zero goes to the \<open>else\<close> branch and subtracts zero.
\<close>

definition rsi_first_loop :: "real list \<Rightarrow> nat list \<Rightarrow> real \<times> real \<Rightarrow> real \<times> real" where
  "rsi_first_loop closes idx start =
     fold (\<lambda>i (gains, losses).
             let change = closes ! i - closes ! (i - 1)
             in if change > 0 then (gains + change, losses) else (gains, losses - change))
          idx start"

text \<open>The second loop, over the indices \<open>idx\<close>: Wilder's smoothing of the two averages.\<close>

definition rsi_second_loop :: "real list \<Rightarrow> nat \<Rightarrow> nat list \<Rightarrow> real \<times> real \<Rightarrow> real \<times> real" where
  "rsi_second_loop closes period idx start =
     fold (\<lambda>i (avgGain, avgLoss).
             let change = closes ! i - closes ! (i - 1);
                 gain = (if change > 0 then change else 0);
                 loss = (if change < 0 then - change else 0)
             in ((avgGain * (real period - 1) + gain) / real period,
                 (avgLoss * (real period - 1) + loss) / real period))
          idx start"

text \<open>
  \<open>calculateRSI(closes, period)\<close>: the first loop runs over \<open>i = 1 .. period\<close>, the second
  over \<open>i = period + 1 .. closes.length - 1\<close>. With period 0 both averages are \<open>0 / 0\<close>,
  the test \<open>avgLoss === 0\<close> fails on \<open>NaN\<close> and the formula returns \<open>NaN\<close>. Otherwise every
  index read is below \<open>closes.length\<close> and every divisor is checked or positive.
\<close>

definition calculateRSI :: "real list \<Rightarrow> nat \<Rightarrow> jsnum" where
  "calculateRSI closes period =
     (if length closes < period + 1 then Null
      else if period = 0 then NaN
      else
        let (gains, losses) = rsi_first_loop closes [1..<period + 1] (0, 0);
            avgGain = gains / real period;
            avgLoss = losses / real period;
            (avgGain, avgLoss) = rsi_second_loop closes period [period + 1..<length closes] (avgGain, avgLoss)
        in if avgLoss = 0 then Number 100
           else Number (100 - 100 / (1 + avgGain / avgLoss)))"

text \<open>
  The pair \<open>(avgGain, avgLoss)\<close> that \<open>calculateRSI\<close> holds when it reaches its last two
  lines, for a period of at least 1: the two loops run one after the other.
\<close>

definition rsi_averages :: "real list \<Rightarrow> nat \<Rightarrow> real \<times> real" where
  "rsi_averages closes period =
     (let (gains, losses) = rsi_first_loop closes [1..<period + 1] (0, 0)
      in rsi_second_loop closes period [period + 1..<length closes]
           (gains / real period, losses / real period))"

subsection \<open>EMA\<close>

text \<open>
  The smoothing loop \<open>for (i = ...; i < xs.length; i++) ema = xs[i] * k + ema * (1 - k)\<close>
  over the indices \<open>idx\<close>. \<open>calculateEMA\<close> runs it over the closes and \<open>calculateMACD\<close>
  over its MACD line.
\<close>

definition ema_loop :: "real list \<Rightarrow> real \<Rightarrow> nat list \<Rightarrow> real \<Rightarrow> real" where
  "ema_loop xs k idx start = fold (\<lambda>i ema. xs ! i * k + ema * (1 - k)) idx start"

text \<open>
  \<open>calculateEMA(closes, period)\<close>. \<open>closes.slice(0, period)\<close> is \<open>take period closes\<close>; with
  period 0 it is empty and \<open>reduce\<close> throws.
\<close>

definition calculateEMA :: "real list \<Rightarrow> nat \<Rightarrow> jsnum outcome" where
  "calculateEMA closes period =
     (if length closes < period then Returns Null
      else
        let k = 2 / (real period + 1)
        in obind (reduce_add (take period closes)) (\<lambda>total.
             let ema = total / real period;
                 ema = ema_loop closes k [period..<length closes] ema
             in Returns (Number ema)))"

subsection \<open>MACD\<close>

text \<open>
  The main loop of \<open>calculateMACD\<close> over the indices \<open>idx\<close>: it carries the two averages
  and the array \<open>macdLine\<close> it pushes to.
\<close>

definition macd_line_loop ::
  "real list \<Rightarrow> real \<Rightarrow> real \<Rightarrow> nat list \<Rightarrow> real \<times> real \<times> real list \<Rightarrow> real \<times> real \<times> real list" where
  "macd_line_loop closes fastK slowK idx start =
     fold (\<lambda>i (fastEMA, slowEMA, macdLine).
             let fastEMA = closes ! i * fastK + fastEMA * (1 - fastK);
                 slowEMA = closes ! i * slowK + slowEMA * (1 - slowK)
             in (fastEMA, slowEMA, macdLine @ [fastEMA - slowEMA]))
          idx start"

text \<open>
  \<open>calculateMACD(closes, fastPeriod, slowPeriod, signalPeriod)\<close>. When \<open>macdLine\<close> is empty
  the seed of the signal line throws, so \<open>macdLine[macdLine.length - 1]\<close> is only read in
  range.
\<close>

definition calculateMACD :: "real list \<Rightarrow> nat \<Rightarrow> nat \<Rightarrow> nat \<Rightarrow> macd_result option outcome" where
  "calculateMACD closes fastPeriod slowPeriod signalPeriod =
     (if length closes < slowPeriod + signalPeriod then Returns None
      else
        let fastK = 2 / (real fastPeriod + 1);
            slowK = 2 / (real slowPeriod + 1)
        in obind (reduce_add (take fastPeriod closes)) (\<lambda>fastTotal.
           obind (reduce_add (take slowPeriod closes)) (\<lambda>slowTotal.
             let fastEMA = fastTotal / real fastPeriod;
                 slowEMA = slowTotal / real slowPeriod;
                 (fastEMA, slowEMA, macdLine) =
                   macd_line_loop closes fastK slowK [max fastPeriod slowPeriod..<length closes]
                     (fastEMA, slowEMA, []);
                 signalK = 2 / (real signalPeriod + 1)
             in obind (reduce_add (take signalPeriod macdLine)) (\<lambda>signalTotal.
                  let signalEMA = signalTotal / real signalPeriod;
                      signalEMA = ema_loop macdLine signalK [signalPeriod..<length macdLine] signalEMA;
                      currentMACD = macdLine ! (length macdLine - 1)
                  in Returns (Some \<lparr>macd = Number currentMACD, signal = Number signalEMA,
                                     histogram = Number (currentMACD - signalEMA)\<rparr>)))))"

subsection \<open>Bollinger bands\<close>

text \<open>The object returned by \<open>calculateBollingerBands\<close>.\<close>

record bollinger_bands =
  upper :: real
  middle :: real
  lower :: real

text \<open>
  \<open>calculateBollingerBands(closes, period, stdDev)\<close>. \<open>closes.slice(-period)\<close> is the last
  \<open>period\<close> closes for a positive period. With period 0 it is \<open>closes.slice(0)\<close>, the whole
  array: \<open>reduce\<close> throws on an empty one, and a non-empty one is divided by zero, which
  fills the bands with \<open>Infinity\<close> and \<open>NaN\<close>.
\<close>

definition calculateBollingerBands :: "real list \<Rightarrow> nat \<Rightarrow> real \<Rightarrow> bollinger_bands option outcome" where
  "calculateBollingerBands closes period stdDev =
     (if length closes < period then Returns None
      else if period = 0 then (if closes = [] then Throws TypeError else NonFinite)
      else
        let recentCloses = drop (length closes - period) closes
        in obind (reduce_add recentCloses) (\<lambda>total.
             let sma = total / real period;
                 squaredDiffs = map (\<lambda>close. (close - sma) ^ 2) recentCloses
             in obind (reduce_add squaredDiffs) (\<lambda>squaredTotal.
                  let variance = squaredTotal / real period;
                      standardDeviation = sqrt variance
                  in Returns (Some \<lparr>upper = sma + standardDeviation * stdDev,
                                     middle = sma,
                                     lower = sma - standardDeviation * stdDev\<rparr>))))"

section \<open>The aggregation\<close>

text \<open>A candle as \<open>fetchKlines\<close> builds it from one row of the exchange's answer.\<close>

record candle =
  candle_timestamp :: int
  candle_open :: real
  high :: real
  low :: real
  close :: real
  volume :: real

text \<open>
  The spread categories are \<open>'Eleve (Forte volatilite)'\<close>, \<open>'Faible (Consolidation)'\<close> and
  \<open>'Moyen (Volatilite normale)'\<close>, written with accents in the source (the specification's
  "High volatility", "Low/Consolidation" and "Normal").
\<close>

datatype spread_category = Eleve | Faible | Moyen

text \<open>
  The object \<open>getAllIndicators\<close> returns. The fields of its nested objects carry the name
  of the object as a prefix: \<open>rsi_value\<close> is \<open>rsi.value\<close>, \<open>ema_ema200\<close> is \<open>ema.ema200\<close>.
\<close>

record rsi_entry =
  rsi_value :: jsnum
  rsi_period :: nat
  rsi_timeframe :: string

record macd_entry =
  macd_macd :: jsnum
  macd_signal :: jsnum
  macd_histogram :: jsnum
  macd_periods :: string
  macd_timeframe :: string

record bollinger_entry =
  bollinger_upper :: real
  bollinger_middle :: real
  bollinger_lower :: real
  bollinger_spread :: real
  bollinger_spreadCategory :: spread_category
  bollinger_period :: nat
  bollinger_timeframe :: string

record ema_entry =
  ema_ema50 :: jsnum
  ema_ema200 :: jsnum
  ema_trend :: string
  ema_timeframe :: string

record snapshot =
  currentPrice :: jsnum
  timestamp :: int
  rsi :: rsi_entry
  macdEntry :: macd_entry
  bollinger :: bollinger_entry
  ema :: ema_entry
  bullMarket :: bull_market

text \<open>
  \<open>getAllIndicators()\<close>, from the point where \<open>await fetchKlines()\<close> has resolved to
  \<open>klines\<close>; \<open>now\<close> is what \<open>Date.now()\<close> reads. (A fetch that fails rejects the whole
  call before any of this runs.) The field \<open>macd\<close> of the result is \<open>macdEntry\<close> here and
  the local \<open>macd\<close> is \<open>macdObj\<close>.
  \<open>closes[closes.length - 1]\<close> is \<open>undefined\<close> on an empty array. The results of the
  calculators are passed on unchecked: the scorer reads \<open>macd.histogram\<close> and the code
  below reads \<open>bollinger.upper\<close>, each a \<open>TypeError\<close> on \<open>null\<close>.
\<close>

definition getAllIndicators :: "candle list \<Rightarrow> int \<Rightarrow> snapshot outcome" where
  "getAllIndicators klines now =
     (let closes = map close klines;
          currentPrice = (if closes = [] then Undefined else Number (closes ! (length closes - 1)));
          rsi = calculateRSI closes 14
      in obind (calculateMACD closes 12 26 9) (\<lambda>macdObj.
         obind (calculateBollingerBands closes 20 2) (\<lambda>bollinger.
         obind (calculateEMA closes 50) (\<lambda>ema50.
         obind (calculateEMA closes 200) (\<lambda>ema200.
         obind (calculateBullMarketIndicator rsi macdObj ema50 ema200 currentPrice) (\<lambda>bullMarket.
           case bollinger of
             None \<Rightarrow> Throws TypeError
           | Some bands \<Rightarrow>
              (let spread = upper bands - lower bands;
                   spreadCategory =
                     (if spread > 20000 then Eleve
                      else if spread < 10000 then Faible
                      else Moyen);
                   emaTrend =
                     (if js_gt ema50 ema200 then ''Haussier (Golden Cross)''
                      else if js_lt ema50 ema200 then ''Baissier (Death Cross)''
                      else ''Neutre'')
               in case macdObj of
                    None \<Rightarrow> Throws TypeError
                  | Some m \<Rightarrow>
                     Returns
                       \<lparr>currentPrice = currentPrice,
                        timestamp = now,
                        rsi = \<lparr>rsi_value = rsi, rsi_period = 14, rsi_timeframe = ''Daily''\<rparr>,
                        macdEntry =
                          \<lparr>macd_macd = macd m,
                           macd_signal = signal m,
                           macd_histogram = histogram m,
                           macd_periods = ''12/26/9'',
                           macd_timeframe = ''Daily''\<rparr>,
                        bollinger =
                          \<lparr>bollinger_upper = upper bands,
                           bollinger_middle = middle bands,
                           bollinger_lower = lower bands,
                           bollinger_spread = spread,
                           bollinger_spreadCategory = spreadCategory,
                           bollinger_period = 20,
                           bollinger_timeframe = ''Daily''\<rparr>,
                        ema =
                          \<lparr>ema_ema50 = ema50, ema_ema200 = ema200, ema_trend = emaTrend,
                           ema_timeframe = ''Daily''\<rparr>,
                        bullMarket = bullMarket\<rparr>)))))))"

section \<open>Auxiliary facts\<close>

subsection \<open>Sums and sequencing\<close>

text \<open>On a non-empty array \<open>reduce\<close> with \<open>+\<close> is the sum of the elements.\<close>

lemma foldl_add_sum: "foldl (\<lambda>a b. a + b) (x::real) rest = x + sum_list rest"
  by (induction rest arbitrary: x) simp_all

lemma reduce_add_eq:
  "reduce_add xs = (if xs = [] then Throws TypeError else Returns (sum_list xs))"
  by (cases xs) (simp_all add: reduce_add_def foldl_add_sum)

lemma obind_Returns_iff:
  "obind x f = Returns y \<longleftrightarrow> (\<exists>a. x = Returns a \<and> f a = Returns y)"
  by (cases x) simp_all

subsection \<open>The results of \<open>calculateEMA\<close>\<close>

lemma ema_eq:
  assumes "1 \<le> period" "period \<le> length closes"
  shows "calculateEMA closes period =
     Returns (Number (ema_loop closes (2 / (real period + 1)) [period..<length closes]
        (sum_list (take period closes) / real period)))"
proof -
  have "take period closes \<noteq> []" using assms by auto
  then show ?thesis using assms by (simp add: calculateEMA_def reduce_add_eq Let_def)
qed

subsection \<open>The results of \<open>calculateMACD\<close>\<close>

text \<open>The main loop pushes one value per index, so the MACD line is as long as its range.\<close>

lemma macd_result_shape:
  assumes "calculateMACD closes fastPeriod slowPeriod signalPeriod = Returns (Some r)"
  shows "\<exists>m sg. r = \<lparr>macd = Number m, signal = Number sg, histogram = Number (m - sg)\<rparr>"
  using assms
  unfolding calculateMACD_def Let_def split_def
  by (auto simp: obind_Returns_iff split: if_splits)

lemma macd_line_length:
  "length (snd (snd (macd_line_loop closes fastK slowK idx (a, b, l)))) = length l + length idx"
  unfolding macd_line_loop_def
  by (induction idx arbitrary: a b l) (simp_all add: Let_def)

lemma macd_returns:
  assumes "1 \<le> fastPeriod" "1 \<le> slowPeriod" "1 \<le> signalPeriod"
    and "max fastPeriod slowPeriod < length closes" "slowPeriod + signalPeriod \<le> length closes"
  shows "\<exists>r. calculateMACD closes fastPeriod slowPeriod signalPeriod = Returns (Some r)"
proof -
  have c: "closes \<noteq> []" using assms(4) by auto
  have f: "take fastPeriod closes \<noteq> []" and s: "take slowPeriod closes \<noteq> []"
    using c assms(1,2) by auto
  have l: "take signalPeriod (snd (snd (macd_line_loop closes fk sk
              [max fastPeriod slowPeriod..<length closes] (a, b, [])))) \<noteq> []" for fk sk a b
  proof -
    have "length (snd (snd (macd_line_loop closes fk sk
              [max fastPeriod slowPeriod..<length closes] (a, b, []))))
          = length closes - max fastPeriod slowPeriod"
      by (simp add: macd_line_length)
    then have "snd (snd (macd_line_loop closes fk sk
              [max fastPeriod slowPeriod..<length closes] (a, b, []))) \<noteq> []"
      using assms(4) by auto
    then show ?thesis using assms(3) by auto
  qed
  show ?thesis
    using assms(5) f s l
    unfolding calculateMACD_def Let_def split_def
    by (simp add: reduce_add_eq)
qed

lemma macd_null_iff:
  "calculateMACD closes fastPeriod slowPeriod signalPeriod = Returns None
     \<longleftrightarrow> length closes < slowPeriod + signalPeriod"
  unfolding calculateMACD_def Let_def split_def
  by (auto simp: obind_Returns_iff)

subsection \<open>The results of \<open>calculateBollingerBands\<close>\<close>

lemma bollinger_eq:
  assumes "1 \<le> period" "period \<le> length closes"
  shows "calculateBollingerBands closes period stdDev =
     Returns (Some
       \<lparr>upper = sum_list (drop (length closes - period) closes) / real period
            + sqrt ((\<Sum>c\<leftarrow>drop (length closes - period) closes.
                       (c - sum_list (drop (length closes - period) closes) / real period) ^ 2)
                    / real period) * stdDev,
        middle = sum_list (drop (length closes - period) closes) / real period,
        lower = sum_list (drop (length closes - period) closes) / real period
            - sqrt ((\<Sum>c\<leftarrow>drop (length closes - period) closes.
                       (c - sum_list (drop (length closes - period) closes) / real period) ^ 2)
                    / real period) * stdDev\<rparr>)"
proof -
  have "drop (length closes - period) closes \<noteq> []" using assms by auto
  then show ?thesis
    using assms by (simp add: calculateBollingerBands_def reduce_add_eq Let_def)
qed

lemma bollinger_null_iff:
  "calculateBollingerBands closes period stdDev = Returns None \<longleftrightarrow> length closes < period"
  by (auto simp: calculateBollingerBands_def Let_def obind_Returns_iff)

subsection \<open>When \<open>calculateEMA\<close> and \<open>calculateRSI\<close> return \<open>null\<close>\<close>

lemma ema_null_iff:
  "calculateEMA closes period = Returns Null \<longleftrightarrow> length closes < period"
  by (auto simp: calculateEMA_def Let_def obind_Returns_iff)

lemma rsi_null_iff:
  "calculateRSI closes period = Null \<longleftrightarrow> length closes < period + 1"
  by (auto simp: calculateRSI_def Let_def split_def)

lemma rsi_returns:
  assumes "1 \<le> period" "period + 1 \<le> length closes"
  shows "\<exists>v. calculateRSI closes period = Number v"
  using assms by (auto simp: calculateRSI_def Let_def split_def)

subsection \<open>The two loops of \<open>calculateRSI\<close>\<close>




text \<open>The value of \<open>calculateRSI\<close> in terms of the two final averages.\<close>

lemma rsi_value:
  assumes "1 \<le> period" "period + 1 \<le> length closes"
  shows "calculateRSI closes period =
     (if snd (rsi_averages closes period) = 0 then Number 100
      else Number (100 - 100 / (1 + fst (rsi_averages closes period) / snd (rsi_averages closes period))))"
  using assms by (simp add: calculateRSI_def rsi_averages_def Let_def split_def)


section \<open>Properties of the composite scorer\<close>

text \<open>With a MACD object at hand the scorer always returns; this is its result, block by block.\<close>

lemma scorer_unfold:
  "calculateBullMarketIndicator rsiValue (Some m) ema50 ema200 price =
     Returns \<lparr>score =
        (if js_ge rsiValue (Number 40) \<and> js_le rsiValue (Number 70) then 20 else 0)
        + (if js_gt (histogram m) (Number 0) then 25 else 0)
        + (if js_gt ema50 ema200 then 30 else 0)
        + (if js_gt price ema50 then 15 else 0)
        + (if js_gt price ema200 then 10 else 0),
       phase = fst (determine_phase
        ((if js_ge rsiValue (Number 40) \<and> js_le rsiValue (Number 70) then 20 else 0)
        + (if js_gt (histogram m) (Number 0) then 25 else 0)
        + (if js_gt ema50 ema200 then 30 else 0)
        + (if js_gt price ema50 then 15 else 0)
        + (if js_gt price ema200 then 10 else 0))),
       phaseColor = snd (determine_phase
        ((if js_ge rsiValue (Number 40) \<and> js_le rsiValue (Number 70) then 20 else 0)
        + (if js_gt (histogram m) (Number 0) then 25 else 0)
        + (if js_gt ema50 ema200 then 30 else 0)
        + (if js_gt price ema50 then 15 else 0)
        + (if js_gt price ema200 then 10 else 0))),
       signals =
         [if js_ge rsiValue (Number 40) \<and> js_le rsiValue (Number 70) then RSI_sain
          else if js_gt rsiValue (Number 70) then RSI_surachat else RSI_faible,
          if js_gt (histogram m) (Number 0) then MACD_positif else MACD_negatif,
          if js_gt ema50 ema200 then Golden_Cross else Death_Cross]
         @ (if js_gt price ema50 then [Prix_gt_EMA50] else [])
         @ (if js_gt price ema200 then [Prix_gt_EMA200] else [])\<rparr>"
  unfolding calculateBullMarketIndicator_def Let_def split_def
  by simp

lemma scorer_null_macd:
  "calculateBullMarketIndicator rsiValue None ema50 ema200 price = Throws TypeError"
  by (simp add: calculateBullMarketIndicator_def Let_def split_def)

lemma scorer_phase_of_score:
  assumes "calculateBullMarketIndicator rsiValue mo ema50 ema200 price = Returns b"
  shows "(phase b, phaseColor b) = determine_phase (score b) \<and> score b \<le> 100"
proof (cases mo)
  case None
  with assms show ?thesis by (simp add: scorer_null_macd)
next
  case (Some m)
  with assms have "b = returned (calculateBullMarketIndicator rsiValue (Some m) ema50 ema200 price)"
    by simp
  then show ?thesis unfolding scorer_unfold by simp
qed

text \<open>
  Claim C2. For RSI 55, a MACD histogram of +1, ema50 = 100, ema200 = 90 and price 105 the
  scorer returns score 100, the phase \<open>'Bull Market Fort'\<close> (the specification's
  "Strong Bull"), the colour \<open>'up'\<close> and all five pass tags, among them
  \<open>'Golden Cross'\<close> and \<open>'MACD positif'\<close> ("MACD positive"). The other two fields of the
  MACD object do not matter.
\<close>

theorem bull_market_all_pass:
  "calculateBullMarketIndicator (Number 55) (Some (m\<lparr>histogram := Number 1\<rparr>))
       (Number 100) (Number 90) (Number 105)
     = Returns \<lparr>score = 100, phase = Bull_Market_Fort, phaseColor = ''up'',
          signals = [RSI_sain, MACD_positif, Golden_Cross, Prix_gt_EMA50, Prix_gt_EMA200]\<rparr>
   \<and> Golden_Cross \<in> set [RSI_sain, MACD_positif, Golden_Cross, Prix_gt_EMA50, Prix_gt_EMA200]
   \<and> MACD_positif \<in> set [RSI_sain, MACD_positif, Golden_Cross, Prix_gt_EMA50, Prix_gt_EMA200]"
  by (simp add: calculateBullMarketIndicator_def determine_phase_def js_gt_def js_ge_def js_le_def)

text \<open>
  Claim C8. The phase is fixed by the score through the thresholds 80, 60, 40 and 20,
  tried from the highest down: each phase is chosen exactly on its interval of scores. The
  colour is \<open>'up'\<close> for the two bull phases, \<open>'down'\<close> for the two bear phases and
  \<open>'neutral'\<close> for the middle one. This holds for every natural number as score, and the
  phase and colour the scorer returns are the ones of the score it returns, which is at
  most 100.
\<close>

theorem phase_by_thresholds:
  "(fst (determine_phase n) = Bull_Market_Fort \<longleftrightarrow> 80 \<le> n) \<and>
   (fst (determine_phase n) = Bull_Market_Modere \<longleftrightarrow> 60 \<le> n \<and> n < 80) \<and>
   (fst (determine_phase n) = Neutre_Consolidation \<longleftrightarrow> 40 \<le> n \<and> n < 60) \<and>
   (fst (determine_phase n) = Bear_Market_Modere \<longleftrightarrow> 20 \<le> n \<and> n < 40) \<and>
   (fst (determine_phase n) = Bear_Market_Fort \<longleftrightarrow> n < 20) \<and>
   (snd (determine_phase n) = ''up'' \<longleftrightarrow>
      fst (determine_phase n) = Bull_Market_Fort \<or> fst (determine_phase n) = Bull_Market_Modere) \<and>
   (snd (determine_phase n) = ''down'' \<longleftrightarrow>
      fst (determine_phase n) = Bear_Market_Modere \<or> fst (determine_phase n) = Bear_Market_Fort) \<and>
   (snd (determine_phase n) = ''neutral'' \<longleftrightarrow> fst (determine_phase n) = Neutre_Consolidation) \<and>
   (calculateBullMarketIndicator rsiValue mo ema50 ema200 price = Returns b \<longrightarrow>
      (phase b, phaseColor b) = determine_phase (score b) \<and> score b \<le> 100)"
proof -
  have "calculateBullMarketIndicator rsiValue mo ema50 ema200 price = Returns b \<longrightarrow>
      (phase b, phaseColor b) = determine_phase (score b) \<and> score b \<le> 100"
    using scorer_phase_of_score by blast
  then show ?thesis by (simp add: determine_phase_def)
qed

theorem phase_by_thresholds_witness:
  "calculateBullMarketIndicator (Number 75) (Some \<lparr>macd = Number 3, signal = Number 1, histogram = Number 2\<rparr>)
       (Number 90) (Number 100) (Number 95)
     = Returns \<lparr>score = 40, phase = Neutre_Consolidation, phaseColor = ''neutral'',
          signals = [RSI_surachat, MACD_positif, Death_Cross, Prix_gt_EMA50]\<rparr>
   \<and> determine_phase 40 = (Neutre_Consolidation, ''neutral'')
   \<and> fst (determine_phase 85) = Bull_Market_Fort \<and> snd (determine_phase 85) = ''up''
   \<and> fst (determine_phase 25) = Bear_Market_Modere \<and> snd (determine_phase 25) = ''down''"
proof -
  let ?r = "calculateBullMarketIndicator (Number 75)
       (Some \<lparr>macd = Number 3, signal = Number 1, histogram = Number 2\<rparr>)
       (Number 90) (Number 100) (Number 95)"
  let ?b = "\<lparr>score = 40, phase = Neutre_Consolidation, phaseColor = ''neutral'',
          signals = [RSI_surachat, MACD_positif, Death_Cross, Prix_gt_EMA50]\<rparr>"
  have r: "?r = Returns ?b"
    by (simp add: calculateBullMarketIndicator_def determine_phase_def js_gt_def js_ge_def js_le_def)
  have "(phase ?b, phaseColor ?b) = determine_phase (score ?b)"
    using phase_by_thresholds [of 40 "Number 75"
        "Some \<lparr>macd = Number 3, signal = Number 1, histogram = Number 2\<rparr>"
        "Number 90" "Number 100" "Number 95" ?b] r
    by blast
  then have d: "determine_phase 40 = (Neutre_Consolidation, ''neutral'')" by simp
  have "fst (determine_phase 85) = Bull_Market_Fort \<and> snd (determine_phase 85) = ''up''"
    using phase_by_thresholds [of 85] by simp
  moreover have "fst (determine_phase 25) = Bear_Market_Modere \<and> snd (determine_phase 25) = ''down''"
    using phase_by_thresholds [of 25] by simp
  ultimately show ?thesis using r d by simp
qed

text \<open>
  Claim C10. Whatever the five inputs are (numbers, \<open>NaN\<close>, \<open>null\<close> or \<open>undefined\<close>, with a
  MACD object to read the histogram from), the scorer returns, and its signals are one RSI
  tag, then one MACD tag, then one cross tag, then the price tags that passed, in the
  order EMA50, EMA200: three to five tags. The score is the sum of the weights 20, 25, 30,
  15 and 10 of the pass tags that are in the list.
\<close>

theorem signals_shape_and_score:
  "\<exists>b r mt c ps. calculateBullMarketIndicator rsiValue (Some m) ema50 ema200 price = Returns b
     \<and> signals b = [r, mt, c] @ ps
     \<and> r \<in> {RSI_sain, RSI_surachat, RSI_faible}
     \<and> mt \<in> {MACD_positif, MACD_negatif}
     \<and> c \<in> {Golden_Cross, Death_Cross}
     \<and> ps \<in> {[], [Prix_gt_EMA50], [Prix_gt_EMA200], [Prix_gt_EMA50, Prix_gt_EMA200]}
     \<and> 3 \<le> length (signals b) \<and> length (signals b) \<le> 5
     \<and> score b =
           (if RSI_sain \<in> set (signals b) then 20 else 0)
         + (if MACD_positif \<in> set (signals b) then 25 else 0)
         + (if Golden_Cross \<in> set (signals b) then 30 else 0)
         + (if Prix_gt_EMA50 \<in> set (signals b) then 15 else 0)
         + (if Prix_gt_EMA200 \<in> set (signals b) then 10 else 0)"
  unfolding scorer_unfold
  apply (intro exI conjI)
          apply (rule refl)
         apply simp
        apply simp
       apply simp
      apply simp
     apply simp
    apply simp
   apply simp
  apply simp
  done

section \<open>Properties of the MACD\<close>

text \<open>
  Claim C6. Whenever \<open>calculateMACD\<close> returns an object, its three fields are numbers and
  the histogram is the MACD value minus the signal value: exactly, hence within the
  tolerance \<open>1e-9\<close>. It does return an object for periods of at least 1 with the fast
  period not above the slow one, once the sequence has \<open>slowPeriod + signalPeriod\<close> closes.
  (The code computes the field as the difference of the two values it returns beside it.)
\<close>

theorem macd_histogram_identity:
  "(calculateMACD closes fastPeriod slowPeriod signalPeriod = Returns (Some r) \<longrightarrow>
      (\<exists>m sg h. macd r = Number m \<and> signal r = Number sg \<and> histogram r = Number h
         \<and> h = m - sg \<and> \<bar>h - (m - sg)\<bar> \<le> 1 / 10 ^ 9)) \<and>
   (1 \<le> fastPeriod \<and> fastPeriod \<le> slowPeriod \<and> 1 \<le> signalPeriod
      \<and> slowPeriod + signalPeriod \<le> length closes \<longrightarrow>
      (\<exists>r'. calculateMACD closes fastPeriod slowPeriod signalPeriod = Returns (Some r')))"
proof (rule conjI; rule impI)
  assume "calculateMACD closes fastPeriod slowPeriod signalPeriod = Returns (Some r)"
  then obtain m sg where "r = \<lparr>macd = Number m, signal = Number sg, histogram = Number (m - sg)\<rparr>"
    using macd_result_shape by blast
  then show "\<exists>m sg h. macd r = Number m \<and> signal r = Number sg \<and> histogram r = Number h
         \<and> h = m - sg \<and> \<bar>h - (m - sg)\<bar> \<le> 1 / 10 ^ 9"
    by simp
next
  assume a: "1 \<le> fastPeriod \<and> fastPeriod \<le> slowPeriod \<and> 1 \<le> signalPeriod
      \<and> slowPeriod + signalPeriod \<le> length closes"
  then have "1 \<le> slowPeriod" "max fastPeriod slowPeriod < length closes" by auto
  with a show "\<exists>r'. calculateMACD closes fastPeriod slowPeriod signalPeriod = Returns (Some r')"
    using macd_returns by blast
qed

lemma macd_example:
  "calculateMACD [1, 2, 4, 8] 1 2 2
     = Returns (Some \<lparr>macd = Number (29 / 18), signal = Number (11 / 9), histogram = Number (7 / 18)\<rparr>)"
  by (simp add: calculateMACD_def reduce_add_def macd_line_loop_def ema_loop_def Let_def upt_rec)

theorem macd_histogram_identity_witness:
  "calculateMACD [1, 2, 4, 8] 1 2 2
     = Returns (Some \<lparr>macd = Number (29 / 18), signal = Number (11 / 9), histogram = Number (7 / 18)\<rparr>)
   \<and> (7 / 18 :: real) = 29 / 18 - 11 / 9
   \<and> (1::nat) \<le> 2 \<and> 2 + 2 \<le> length [1, 2, 4, 8 :: real]"
  using macd_histogram_identity [of "[1, 2, 4, 8]" 1 2 2
      "\<lparr>macd = Number (29 / 18), signal = Number (11 / 9), histogram = Number (7 / 18)\<rparr>"]
    macd_example
  by simp

section \<open>Absence of a result\<close>

text \<open>
  Claim C7, as amended. Each indicator function returns \<open>null\<close> exactly when the sequence
  is shorter than its lookback: \<open>calculateRSI\<close> below \<open>period + 1\<close> closes,
  \<open>calculateEMA\<close> and \<open>calculateBollingerBands\<close> below \<open>period\<close>, \<open>calculateMACD\<close> below
  \<open>slowPeriod + signalPeriod\<close>; this holds for all periods. A sequence that is long enough
  gives a number (RSI, EMA) or an object (MACD, Bollinger) when every period is at least 1
  and, for the MACD, the sequence is longer than the larger of the fast and the slow period
  (which follows from the length check when the fast period is not above the slow one).
\<close>

theorem absent_iff_short:
  "(calculateRSI closes p = Null \<longleftrightarrow> length closes < p + 1) \<and>
   (calculateEMA closes p = Returns Null \<longleftrightarrow> length closes < p) \<and>
   (calculateMACD closes f s g = Returns None \<longleftrightarrow> length closes < s + g) \<and>
   (calculateBollingerBands closes p sd = Returns None \<longleftrightarrow> length closes < p) \<and>
   (1 \<le> p \<and> p + 1 \<le> length closes \<longrightarrow> (\<exists>v. calculateRSI closes p = Number v)) \<and>
   (1 \<le> p \<and> p \<le> length closes \<longrightarrow> (\<exists>v. calculateEMA closes p = Returns (Number v))) \<and>
   (1 \<le> f \<and> 1 \<le> s \<and> 1 \<le> g \<and> max f s < length closes \<and> s + g \<le> length closes \<longrightarrow>
      (\<exists>r. calculateMACD closes f s g = Returns (Some r))) \<and>
   (1 \<le> p \<and> p \<le> length closes \<longrightarrow>
      (\<exists>b. calculateBollingerBands closes p sd = Returns (Some b)))"
proof -
  have "1 \<le> p \<and> p + 1 \<le> length closes \<longrightarrow> (\<exists>v. calculateRSI closes p = Number v)"
    using rsi_returns by blast
  moreover have "1 \<le> p \<and> p \<le> length closes \<longrightarrow> (\<exists>v. calculateEMA closes p = Returns (Number v))"
    using ema_eq by blast
  moreover have "1 \<le> f \<and> 1 \<le> s \<and> 1 \<le> g \<and> max f s < length closes \<and> s + g \<le> length closes \<longrightarrow>
      (\<exists>r. calculateMACD closes f s g = Returns (Some r))"
    using macd_returns by blast
  moreover have "1 \<le> p \<and> p \<le> length closes \<longrightarrow>
      (\<exists>b. calculateBollingerBands closes p sd = Returns (Some b))"
    using bollinger_eq by blast
  ultimately show ?thesis
    using rsi_null_iff [of closes p] ema_null_iff [of closes p] macd_null_iff [of closes f s g]
      bollinger_null_iff [of closes p sd]
    by blast
qed

text \<open>
  Outside these conditions the functions can throw although the sequence passes the length
  check. \<open>calculateMACD([1, 2], 3, 1, 1)\<close>: two closes are enough for \<open>1 + 1\<close>, the main
  loop starts at index 3 and pushes nothing, and \<open>reduce\<close> on the empty MACD line throws a
  \<open>TypeError\<close>. \<open>calculateEMA([1], 0)\<close>: \<open>reduce\<close> on the empty slice throws.
\<close>

theorem defined_result_counterexample:
  "calculateMACD [1, 2] 3 1 1 = Throws TypeError \<and> \<not> length [1, 2 :: real] < 1 + 1
   \<and> calculateEMA [1] 0 = Throws TypeError \<and> \<not> length [1 :: real] < 0"
  by (simp add: calculateMACD_def calculateEMA_def reduce_add_def macd_line_loop_def Let_def)

lemma rsi_example: "calculateRSI [1, 2, 4, 8] 2 = Number 100"
  by (simp add: calculateRSI_def rsi_first_loop_def rsi_second_loop_def Let_def upt_rec)

theorem absent_iff_short_witness:
  "calculateRSI [1, 2, 4, 8] 2 = Number 100
   \<and> calculateRSI [1, 2] 2 = Null
   \<and> calculateEMA [1] 2 = Returns Null
   \<and> calculateMACD [1, 2, 4] 1 2 2 = Returns None
   \<and> calculateBollingerBands [1] 2 2 = Returns None
   \<and> (\<exists>v. calculateEMA [1, 2, 4, 8] 2 = Returns (Number v))
   \<and> (\<exists>r. calculateMACD [1, 2, 4, 8] 1 2 2 = Returns (Some r))
   \<and> (\<exists>b. calculateBollingerBands [1, 2, 4, 8] 2 2 = Returns (Some b))"
  using absent_iff_short [of "[1, 2, 4, 8]" 2 1 2 2 2] absent_iff_short [of "[1, 2]" 2 1 2 2 2]
    absent_iff_short [of "[1]" 2 1 2 2 2] absent_iff_short [of "[1, 2, 4]" 2 1 2 2 2]
    rsi_example
  by simp

section \<open>Properties of the RSI\<close>




section \<open>Properties of the aggregation\<close>

text \<open>
  \<open>getAllIndicators\<close> never checks a result for \<open>null\<close>, and it has no way to report an
  absent snapshot. Below 35 candles the MACD result is \<open>null\<close> and the scorer throws when it
  reads the histogram.
\<close>

lemma aggregation_short_batch_throws:
  assumes "length klines < 35"
  shows "getAllIndicators klines now = Throws TypeError"
proof -
  let ?closes = "map close klines"
  have m: "calculateMACD ?closes 12 26 9 = Returns None"
    using assms by (simp add: macd_null_iff)
  have e50: "calculateEMA ?closes 50 = Returns Null" and e200: "calculateEMA ?closes 200 = Returns Null"
    using assms by (simp_all add: ema_null_iff)
  have "\<exists>b. calculateBollingerBands ?closes 20 2 = Returns b"
  proof (cases "length klines < 20")
    case True
    then have "calculateBollingerBands ?closes 20 2 = Returns None"
      by (simp add: bollinger_null_iff)
    then show ?thesis by blast
  next
    case False
    then show ?thesis using bollinger_eq [of 20 ?closes 2] by simp
  qed
  then obtain b where b: "calculateBollingerBands ?closes 20 2 = Returns b" by blast
  show ?thesis
    unfolding getAllIndicators_def Let_def m b e50 e200
    by (simp add: scorer_null_macd)
qed

lemma aggregation_returns:
  assumes "35 \<le> length klines"
  shows "\<exists>s. getAllIndicators klines now = Returns s
      \<and> (\<exists>v. rsi_value (rsi s) = Number v)
      \<and> (\<exists>m. macd_macd (macdEntry s) = Number m)
      \<and> (ema_ema50 (ema s) = Null \<longleftrightarrow> length klines < 50)
      \<and> (ema_ema200 (ema s) = Null \<longleftrightarrow> length klines < 200)
      \<and> timestamp s = now"
proof -
  let ?closes = "map close klines"
  obtain v where v: "calculateRSI ?closes 14 = Number v"
    using rsi_returns [of 14 ?closes] assms by auto
  obtain r where r: "calculateMACD ?closes 12 26 9 = Returns (Some r)"
    using macd_returns [of 12 26 9 ?closes] assms by auto
  obtain m sg where rm: "r = \<lparr>macd = Number m, signal = Number sg, histogram = Number (m - sg)\<rparr>"
    using macd_result_shape [OF r] by blast
  obtain b where b: "calculateBollingerBands ?closes 20 2 = Returns (Some b)"
    using bollinger_eq [of 20 ?closes 2] assms by auto
  obtain e50 where e50: "calculateEMA ?closes 50 = Returns e50" "e50 = Null \<longleftrightarrow> length klines < 50"
  proof (cases "length klines < 50")
    case True
    then show ?thesis using that [of Null] by (simp add: ema_null_iff)
  next
    case False
    then show ?thesis using that ema_eq [of 50 ?closes] by simp
  qed
  obtain e200 where e200: "calculateEMA ?closes 200 = Returns e200" "e200 = Null \<longleftrightarrow> length klines < 200"
  proof (cases "length klines < 200")
    case True
    then show ?thesis using that [of Null] by (simp add: ema_null_iff)
  next
    case False
    then show ?thesis using that ema_eq [of 200 ?closes] by simp
  qed
  show ?thesis
    unfolding getAllIndicators_def Let_def v r b e50(1) e200(1)
    using e50(2) e200(2) rm by (simp add: scorer_unfold)
qed

text \<open>
  Claim C1, as amended. For a batch of at least 35 candles the aggregation returns a
  snapshot, in which the RSI and the MACD are numbers, \<open>ema50\<close> is \<open>null\<close> exactly when the
  batch has fewer than 50 candles and \<open>ema200\<close> is \<open>null\<close> exactly when it has fewer than
  200: a batch between 35 and 199 candles gives a partial snapshot, not an absent one.
\<close>

theorem aggregation_partial_snapshot:
  "35 \<le> length klines \<longrightarrow>
     (\<exists>s. getAllIndicators klines now = Returns s
        \<and> (\<exists>v. rsi_value (rsi s) = Number v)
        \<and> (\<exists>m. macd_macd (macdEntry s) = Number m)
        \<and> (ema_ema50 (ema s) = Null \<longleftrightarrow> length klines < 50)
        \<and> (ema_ema200 (ema s) = Null \<longleftrightarrow> length klines < 200))"
  using aggregation_returns [of klines now] by blast

text \<open>The indicators of fifty closes that are all 1.\<close>

lemma rsi_constant_batch: "calculateRSI (replicate 50 1) 14 = Number 100"
  by (simp add: calculateRSI_def rsi_first_loop_def rsi_second_loop_def Let_def upt_rec)

lemma ema50_constant_batch: "calculateEMA (replicate 50 1) 50 = Returns (Number 1)"
  by (simp add: calculateEMA_def reduce_add_eq ema_loop_def Let_def sum_list_replicate)

lemma ema200_constant_batch: "calculateEMA (replicate 50 1) 200 = Returns Null"
  by (simp add: calculateEMA_def)

lemma bollinger_constant_batch: "calculateBollingerBands (replicate 50 1) 20 2 = Returns (Some \<lparr>upper = 1, middle = 1, lower = 1\<rparr>)"
  by (simp add: bollinger_eq sum_list_replicate)

lemma macd_constant_batch: "calculateMACD (replicate 50 1) 12 26 9 = Returns (Some \<lparr>macd = Number 0, signal = Number 0, histogram = Number 0\<rparr>)"
  by (simp add: calculateMACD_def reduce_add_eq macd_line_loop_def ema_loop_def Let_def sum_list_replicate upt_rec)

text \<open>
  A batch of 50 candles, each closing at 1: the aggregation returns a snapshot whose
  \<open>ema200\<close> is \<open>null\<close>. The comparisons with \<open>null\<close> read it as 0, so the snapshot
  reports a golden cross and a price above the EMA200.
\<close>

theorem fifty_candles_counterexample:
  "getAllIndicators
      (replicate 50 \<lparr>candle_timestamp = 0, candle_open = 1, high = 1, low = 1, close = 1, volume = 1\<rparr>) 0
     = Returns
        \<lparr>currentPrice = Number 1, timestamp = 0,
         rsi = \<lparr>rsi_value = Number 100, rsi_period = 14, rsi_timeframe = ''Daily''\<rparr>,
         macdEntry = \<lparr>macd_macd = Number 0, macd_signal = Number 0, macd_histogram = Number 0,
                      macd_periods = ''12/26/9'', macd_timeframe = ''Daily''\<rparr>,
         bollinger = \<lparr>bollinger_upper = 1, bollinger_middle = 1, bollinger_lower = 1,
                      bollinger_spread = 0, bollinger_spreadCategory = Faible,
                      bollinger_period = 20, bollinger_timeframe = ''Daily''\<rparr>,
         ema = \<lparr>ema_ema50 = Number 1, ema_ema200 = Null, ema_trend = ''Haussier (Golden Cross)'',
                ema_timeframe = ''Daily''\<rparr>,
         bullMarket = \<lparr>score = 40, phase = Neutre_Consolidation, phaseColor = ''neutral'',
                       signals = [RSI_surachat, MACD_negatif, Golden_Cross, Prix_gt_EMA200]\<rparr>\<rparr>"
  unfolding getAllIndicators_def Let_def
  by (simp add: rsi_constant_batch ema50_constant_batch ema200_constant_batch
        bollinger_constant_batch macd_constant_batch scorer_unfold
        determine_phase_def js_gt_def js_ge_def js_le_def js_lt_def)

theorem aggregation_partial_snapshot_witness:
  "(35::nat) \<le> length (replicate 40 \<lparr>candle_timestamp = 0, candle_open = 2, high = 3, low = 1, close = 2, volume = 1\<rparr>)
   \<and> (\<exists>s. getAllIndicators
          (replicate 40 \<lparr>candle_timestamp = 0, candle_open = 2, high = 3, low = 1, close = 2, volume = 1\<rparr>) 7
            = Returns s
        \<and> ema_ema50 (ema s) = Null \<and> ema_ema200 (ema s) = Null)"
  using aggregation_partial_snapshot
    [of "replicate 40 \<lparr>candle_timestamp = 0, candle_open = 2, high = 3, low = 1, close = 2, volume = 1\<rparr>" 7]
  by auto

end
